theory Spec2Isabelle
  imports Complex_Main "HOL-Library.Word"
begin

section \<open>Skin tone analyser: data model\<close>

text \<open>
  The analyser and the tone modifier work on numpy arrays: an RGB image is a grid of
  pixels with three 8-bit channels, a mask is a grid of 8-bit weights of the same shape.
  Rows are lists, so \<open>shape[0]\<close> is the number of rows and \<open>shape[1]\<close> the length of a row.

  Python floats (and numpy's float32 and float64) are idealised as reals: the order of the
  operations and every comparison, clip and cast of the source are kept, the rounding of
  the floating-point operations is not modelled.
\<close>

type_synonym pixel = "8 word \<times> 8 word \<times> 8 word"
type_synonym image = "pixel list list"
type_synonym mask = "8 word list list"
type_synonym fpixel = "real \<times> real \<times> real"

text \<open>
  Every failure of the source is a Python exception. The source itself raises only
  \<open>ValueError\<close>; the libraries it calls (cv2, sklearn, skimage, numpy) raise exceptions of
  their own classes, which are \<open>LibError\<close> here. \<open>str_exn\<close> is Python's \<open>str(e)\<close>.
\<close>

datatype exn = ValueError string | LibError string

fun str_exn :: "exn \<Rightarrow> string" where
  "str_exn (ValueError m) = m"
| "str_exn (LibError m) = m"


text \<open>Sequencing of steps that may raise: the first exception ends the computation.\<close>

definition and_then :: "exn + 'a \<Rightarrow> ('a \<Rightarrow> exn + 'b) \<Rightarrow> exn + 'b" where
  "and_then m f = (case m of Inl e \<Rightarrow> Inl e | Inr x \<Rightarrow> f x)"

text \<open>
  \<open>try: ... except Exception as e: raise ValueError(f"<prefix>{str(e)}")\<close>, the handler
  that closes most functions of the source.
\<close>

definition reraise :: "string \<Rightarrow> exn + 'a \<Rightarrow> exn + 'a" where
  "reraise prefix m = (case m of Inl e \<Rightarrow> Inl (ValueError (prefix @ str_exn e)) | Inr x \<Rightarrow> Inr x)"

definition shape0 :: "'a list list \<Rightarrow> nat" where
  "shape0 a = length a"

definition shape1 :: "'a list list \<Rightarrow> nat" where
  "shape1 a = (case a of [] \<Rightarrow> 0 | row # _ \<Rightarrow> length row)"

section \<open>ColorAnalyzer: classification of the mean colour\<close>

text \<open>
  \<open>self.skin_tone_categories\<close>: a dict literal, iterated in insertion order by
  \<open>.items()\<close>; each entry is the key, the \<open>range\<close> pair and the \<open>name\<close>.
\<close>

definition skin_tone_categories :: "(string \<times> (real \<times> real) \<times> string) list" where
  "skin_tone_categories =
     [(''very_light'', (0, 25), ''Very Light''),
      (''light'', (25, 40), ''Light''),
      (''light_medium'', (40, 55), ''Light Medium''),
      (''medium'', (55, 70), ''Medium''),
      (''medium_dark'', (70, 85), ''Medium Dark''),
      (''dark'', (85, 100), ''Dark'')]"

text \<open>The test of the loop body: \<open>min_val <= lightness < max_val\<close>.\<close>

fun in_range :: "string \<times> (real \<times> real) \<times> string \<Rightarrow> real \<Rightarrow> bool" where
  "in_range (category, (min_val, max_val), name) lightness =
     (min_val \<le> lightness \<and> lightness < max_val)"

fun category_name :: "string \<times> (real \<times> real) \<times> string \<Rightarrow> string" where
  "category_name (category, rng, name) = name"

text \<open>The \<open>for\<close> loop of \<open>_classify_skin_tone_category\<close>: the first entry that matches returns.\<close>

fun classify_loop :: "(string \<times> (real \<times> real) \<times> string) list \<Rightarrow> real \<Rightarrow> string option" where
  "classify_loop [] lightness = None"
| "classify_loop (entry # rest) lightness =
     (if in_range entry lightness then Some (category_name entry)
      else classify_loop rest lightness)"

definition classify_skin_tone_category :: "real \<Rightarrow> string" where
  "classify_skin_tone_category lightness =
     (case classify_loop skin_tone_categories lightness of
        Some name \<Rightarrow> name
      | None \<Rightarrow>
          if lightness < 25 then ''Very Light''
          else if lightness \<ge> 85 then ''Dark''
          else ''Medium'')"

text \<open>
  \<open>_determine_undertone\<close>. \<open>avg_color\<close> is a numpy vector; reading index 0, 1 or 2 of a
  vector with fewer than three entries raises \<open>IndexError\<close>, which the bare
  \<open>except Exception\<close> turns into \<open>'Neutral'\<close>. \<open>skin_pixels\<close> is not used.
\<close>

definition determine_undertone :: "real list \<Rightarrow> pixel list \<Rightarrow> string" where
  "determine_undertone avg_color skin_pixels =
     (let rgb_normalized = map (\<lambda>c. c / 255) avg_color in
      if length rgb_normalized < 3 then ''Neutral''
      else
        let red_ratio = rgb_normalized ! 0;
            green_ratio = rgb_normalized ! 1;
            blue_ratio = rgb_normalized ! 2;
            red_blue_diff = red_ratio - blue_ratio
        in if red_blue_diff > 0.05 then ''Warm''
           else if red_blue_diff < - 0.05 then ''Cool''
           else ''Neutral'')"

text \<open>
  \<open>_calculate_confidence\<close>. \<open>np.sum(skin_mask > 0)\<close> counts the mask cells above zero.
  The quotient is a numpy scalar division: with \<open>total_pixels = 0\<close> it warns and yields
  \<open>inf\<close> or \<open>nan\<close> rather than raising, every \<open><\<close> test is then false and the last
  branch is taken. The handler of the function (which returns 0.5) is reached only by
  arguments that are not arrays of two or more dimensions, which the types exclude.
\<close>

definition count_positive :: "mask \<Rightarrow> nat" where
  "count_positive skin_mask = length (filter (\<lambda>w. 0 < w) (concat skin_mask))"

definition calculate_confidence :: "mask \<Rightarrow> image \<Rightarrow> real" where
  "calculate_confidence skin_mask img =
     (let total_pixels = shape0 img * shape1 img;
          skin_pixels = count_positive skin_mask;
          confidence =
            (if total_pixels = 0 then 0.8
             else
               let skin_ratio = real skin_pixels / real total_pixels in
               if skin_ratio < 0.05 then 0.3
               else if skin_ratio < 0.15 then 0.6
               else if skin_ratio < 0.4 then 0.9
               else 0.8)
      in min 1.0 (max 0.0 confidence))"

section \<open>The libraries, as parameters\<close>

text \<open>
  OpenCV, scikit-learn and scikit-image are not part of the program. Each library call of
  the source is a field of a record below, and a model function takes the records as its
  first arguments. A call either returns or raises.
\<close>

datatype color_code =
  COLOR_RGB2HSV | COLOR_RGB2YCrCb | COLOR_RGB2LAB | COLOR_LAB2RGB | COLOR_HSV2RGB

datatype morph_shape = MORPH_ELLIPSE

datatype morph_op = MORPH_OPEN | MORPH_CLOSE

record cv2 =
  cvtColor :: "image \<Rightarrow> color_code \<Rightarrow> exn + image"
  inRange :: "image \<Rightarrow> pixel \<Rightarrow> pixel \<Rightarrow> exn + mask"
  bitwise_and :: "mask \<Rightarrow> mask \<Rightarrow> exn + mask"
  getStructuringElement :: "morph_shape \<Rightarrow> nat \<times> nat \<Rightarrow> exn + mask"
  morphologyEx :: "mask \<Rightarrow> morph_op \<Rightarrow> mask \<Rightarrow> exn + mask"
  GaussianBlur :: "mask \<Rightarrow> nat \<times> nat \<Rightarrow> real \<Rightarrow> exn + mask"

text \<open>
  \<open>KMeans(n_clusters, random_state, n_init).fit(pixels)\<close>, returning
  \<open>cluster_centers_\<close> and \<open>labels_\<close>.
\<close>

type_synonym kmeans = "nat \<Rightarrow> nat \<Rightarrow> nat \<Rightarrow> pixel list \<Rightarrow> exn + (fpixel list \<times> nat list)"

record skimage =
  rgb2lab :: "fpixel \<Rightarrow> exn + fpixel"
  rgb2hsv :: "fpixel \<Rightarrow> exn + fpixel"

section \<open>numpy operations used by the source\<close>

definition map2d :: "('a \<Rightarrow> 'b) \<Rightarrow> 'a list list \<Rightarrow> 'b list list" where
  "map2d f a = map (map f) a"

definition zip2d :: "'a list list \<Rightarrow> 'b list list \<Rightarrow> ('a \<times> 'b) list list" where
  "zip2d a b = map (\<lambda>(r, s). zip r s) (zip a b)"

definition same_shape :: "'a list list \<Rightarrow> 'b list list \<Rightarrow> bool" where
  "same_shape a b = (map length a = map length b)"

text \<open>
  \<open>np.sum(skin_mask)\<close>: numpy adds 8-bit cells in a 64-bit accumulator, so the sum of a
  mask does not wrap; it is a natural number here.
\<close>

definition np_sum :: "mask \<Rightarrow> nat" where
  "np_sum m = sum_list (map unat (concat m))"

text \<open>
  \<open>image[skin_mask > 0]\<close>: the pixels at the cells where the mask is positive, in row-major
  order. numpy raises \<open>IndexError\<close> when the boolean index has another shape.
\<close>

definition boolean_index :: "image \<Rightarrow> mask \<Rightarrow> exn + pixel list" where
  "boolean_index img m =
     (if same_shape img m
      then Inr (map fst (filter (\<lambda>(p, w). 0 < w) (zip (concat img) (concat m))))
      else Inl (LibError ''boolean index did not match indexed array''))"

text \<open>
  \<open>np.where(skin_mask > 0, x, y)\<close> on arrays of one shape; operands of other shapes are
  modelled as numpy's broadcast failure, a \<open>ValueError\<close>.
\<close>

definition np_where :: "mask \<Rightarrow> real list list \<Rightarrow> real list list \<Rightarrow> exn + real list list" where
  "np_where m x y =
     (if same_shape m x \<and> same_shape m y
      then Inr (map2d (\<lambda>(w, a, b). if 0 < w then a else b) (zip2d m (zip2d x y)))
      else Inl (ValueError ''operands could not be broadcast together''))"

definition clip :: "real \<Rightarrow> real \<Rightarrow> real \<Rightarrow> real" where
  "clip x lo hi = min (max x lo) hi"

text \<open>
  \<open>astype(np.float32)\<close> of an 8-bit value is exact. \<open>astype(np.uint8)\<close> of a float drops
  the fraction; outside 0..255 the result is platform-defined and is modelled as the
  wrap-around of the truncated integer.
\<close>

definition astype_float :: "8 word \<Rightarrow> real" where
  "astype_float w = real (unat w)"

definition trunc :: "real \<Rightarrow> int" where
  "trunc x = (if 0 \<le> x then \<lfloor>x\<rfloor> else \<lceil>x\<rceil>)"

definition astype_uint8 :: "real \<Rightarrow> 8 word" where
  "astype_uint8 x = word_of_int (trunc x)"

definition pixel_float :: "pixel \<Rightarrow> fpixel" where
  "pixel_float p = (case p of (c0, c1, c2) \<Rightarrow> (astype_float c0, astype_float c1, astype_float c2))"

definition pixel_uint8 :: "fpixel \<Rightarrow> pixel" where
  "pixel_uint8 p = (case p of (c0, c1, c2) \<Rightarrow> (astype_uint8 c0, astype_uint8 c1, astype_uint8 c2))"

text \<open>Reading a channel \<open>a[:, :, c]\<close> and assigning one \<open>a[:, :, c] = v\<close>.\<close>

definition channel0 :: "fpixel list list \<Rightarrow> real list list" where
  "channel0 a = map2d (\<lambda>(c0, c1, c2). c0) a"

definition channel1 :: "fpixel list list \<Rightarrow> real list list" where
  "channel1 a = map2d (\<lambda>(c0, c1, c2). c1) a"

definition channel2 :: "fpixel list list \<Rightarrow> real list list" where
  "channel2 a = map2d (\<lambda>(c0, c1, c2). c2) a"

definition set_channel0 :: "fpixel list list \<Rightarrow> real list list \<Rightarrow> fpixel list list" where
  "set_channel0 a v = map2d (\<lambda>((c0, c1, c2), x). (x, c1, c2)) (zip2d a v)"

definition set_channel1 :: "fpixel list list \<Rightarrow> real list list \<Rightarrow> fpixel list list" where
  "set_channel1 a v = map2d (\<lambda>((c0, c1, c2), x). (c0, x, c2)) (zip2d a v)"

definition set_channel2 :: "fpixel list list \<Rightarrow> real list list \<Rightarrow> fpixel list list" where
  "set_channel2 a v = map2d (\<lambda>((c0, c1, c2), x). (c0, c1, x)) (zip2d a v)"

text \<open>\<open>np.mean(v)\<close> of a vector and \<open>np.mean(pixels, axis=0)\<close> of an N x 3 array.\<close>

definition np_mean :: "real list \<Rightarrow> real" where
  "np_mean v = sum_list v / real (length v)"

definition np_mean_axis0 :: "pixel list \<Rightarrow> real list" where
  "np_mean_axis0 ps =
     [np_mean (map (\<lambda>(c0, c1, c2). astype_float c0) ps),
      np_mean (map (\<lambda>(c0, c1, c2). astype_float c1) ps),
      np_mean (map (\<lambda>(c0, c1, c2). astype_float c2) ps)]"

text \<open>\<open>rgb_color.reshape(1, 1, 3)\<close> raises \<open>ValueError\<close> unless the vector has three entries.\<close>

definition reshape_1_1_3 :: "real list \<Rightarrow> exn + fpixel" where
  "reshape_1_1_3 v =
     (case v of
        [c0, c1, c2] \<Rightarrow> Inr (c0, c1, c2)
      | _ \<Rightarrow> Inl (ValueError ''cannot reshape array into shape (1,1,3)''))"

text \<open>
  \<open>np.bincount(labels)\<close> has one cell per value up to the largest label;
  \<open>np.argsort(a)\<close> lists the indices by ascending value (a stable insertion sort here:
  numpy's default sort is one for arrays this short), \<open>[::-1]\<close> reverses it.
  \<open>centers[sorted_indices]\<close> raises \<open>IndexError\<close> on an index out of range.
\<close>

definition bincount :: "nat list \<Rightarrow> nat list" where
  "bincount ls = (if ls = [] then [] else map (count_list ls) [0..<Suc (fold max ls 0)])"

definition argsort :: "nat list \<Rightarrow> nat list" where
  "argsort a = sort_key (\<lambda>i. a ! i) [0..<length a]"

definition take_rows :: "'a list \<Rightarrow> nat list \<Rightarrow> exn + 'a list" where
  "take_rows a idx =
     (if list_all (\<lambda>i. i < length a) idx then Inr (map (\<lambda>i. a ! i) idx)
      else Inl (LibError ''index is out of bounds''))"

text \<open>Python's \<open>%\<close> on floats, for a positive modulus.\<close>

definition py_mod :: "real \<Rightarrow> real \<Rightarrow> real" where
  "py_mod x y = x - y * of_int \<lfloor>x / y\<rfloor>"

section \<open>ColorAnalyzer: detection, clustering and the analysis\<close>

text \<open>
  \<open>_detect_skin_regions\<close>: two colour-space thresholds, their intersection, a morphological
  opening and closing with a 5 x 5 ellipse, a 3 x 3 Gaussian blur. Any exception is
  raised again as a \<open>ValueError\<close>.
\<close>

definition detect_skin_regions :: "cv2 \<Rightarrow> image \<Rightarrow> exn + mask" where
  "detect_skin_regions cv img =
     reraise ''Skin detection failed: ''
       (and_then (cvtColor cv img COLOR_RGB2HSV) (\<lambda>hsv.
        and_then (cvtColor cv img COLOR_RGB2YCrCb) (\<lambda>ycrcb.
        and_then (inRange cv hsv (0, 20, 70) (20, 255, 255)) (\<lambda>mask_hsv.
        and_then (inRange cv ycrcb (0, 135, 85) (255, 180, 135)) (\<lambda>mask_ycrcb.
        and_then (bitwise_and cv mask_hsv mask_ycrcb) (\<lambda>skin_mask.
        and_then (getStructuringElement cv MORPH_ELLIPSE (5, 5)) (\<lambda>kernel.
        and_then (morphologyEx cv skin_mask MORPH_OPEN kernel) (\<lambda>skin_mask.
        and_then (morphologyEx cv skin_mask MORPH_CLOSE kernel) (\<lambda>skin_mask.
        GaussianBlur cv skin_mask (3, 3) 0)))))))))"

text \<open>
  \<open>_get_dominant_colors\<close>. \<open>pixels.reshape(-1, 3)\<close> leaves an N x 3 array as it is. The
  function makes no test of its own on the pixels: it fails when a library call raises.
\<close>

definition get_dominant_colors :: "kmeans \<Rightarrow> pixel list \<Rightarrow> nat \<Rightarrow> exn + pixel list" where
  "get_dominant_colors km pixels n_colors =
     reraise ''Dominant color extraction failed: ''
       (let pixels_reshaped = pixels in
        and_then (km n_colors 42 10 pixels_reshaped) (\<lambda>(cluster_centers, labels).
          let dominant_colors = cluster_centers;
              label_counts = bincount labels;
              sorted_indices = rev (argsort label_counts)
          in and_then (take_rows dominant_colors sorted_indices) (\<lambda>dominant_colors.
             Inr (map pixel_uint8 dominant_colors))))"

text \<open>
  \<open>_calculate_lightness\<close>: the L* of the colour, clamped to 0..100; when the conversion
  raises, the mean of the channels scaled to 0..100.
\<close>

definition calculate_lightness :: "skimage \<Rightarrow> real list \<Rightarrow> real" where
  "calculate_lightness sk rgb_color =
     (case and_then (reshape_1_1_3 rgb_color) (\<lambda>(r, g, b).
             rgb2lab sk (r / 255, g / 255, b / 255)) of
        Inr (l, a, b) \<Rightarrow> max 0 (min 100 l)
      | Inl e \<Rightarrow> np_mean rgb_color / 255 * 100)"

text \<open>
  \<open>_calculate_color_temperature\<close>: unpacking \<open>r, g, b = rgb_color / 255.0\<close> raises unless
  the vector has three entries, and the handler returns \<open>'Neutral'\<close>.
\<close>

definition calculate_color_temperature :: "real list \<Rightarrow> string" where
  "calculate_color_temperature rgb_color =
     (case map (\<lambda>c. c / 255) rgb_color of
        [r, g, b] \<Rightarrow>
          if r > b then (if r - b > 0.1 then ''Warm'' else ''Neutral-Warm'')
          else if b > r then (if b - r > 0.1 then ''Cool'' else ''Neutral-Cool'')
          else ''Neutral''
      | _ \<Rightarrow> ''Neutral'')"

text \<open>
  \<open>_get_color_harmony_info\<close> returns a dict whose values are floats or lists of floats;
  the dict is an association list in insertion order. The whole body is inside
  \<open>try\<close>, and the handler returns a literal: \<open>harmony_body\<close> is the body, which may raise,
  and \<open>get_color_harmony_info\<close> the function with its handler.
\<close>

datatype hvalue = Num real | Nums "real list"

definition harmony_body :: "skimage \<Rightarrow> real list \<Rightarrow> exn + (string \<times> hvalue) list" where
  "harmony_body sk rgb_color =
     and_then (reshape_1_1_3 rgb_color) (\<lambda>(r, g, b).
     and_then (rgb2hsv sk (r / 255, g / 255, b / 255)) (\<lambda>(hue, saturation, val).
       let hue_degrees = hue * 360;
           complementary_hue = py_mod (hue_degrees + 180) 360;
           triadic_hue1 = py_mod (hue_degrees + 120) 360;
           triadic_hue2 = py_mod (hue_degrees + 240) 360;
           analogous_hue1 = py_mod (hue_degrees + 30) 360;
           analogous_hue2 = py_mod (hue_degrees - 30) 360
       in Inr [(''base_hue'', Num hue_degrees),
               (''complementary'', Num complementary_hue),
               (''triadic'', Nums [triadic_hue1, triadic_hue2]),
               (''analogous'', Nums [analogous_hue1, analogous_hue2]),
               (''saturation'', Num saturation),
               (''value'', Num val)]))"

definition harmony_default :: "(string \<times> hvalue) list" where
  "harmony_default =
     [(''base_hue'', Num 0), (''complementary'', Num 180),
      (''triadic'', Nums [120, 240]), (''analogous'', Nums [30, 330])]"

definition get_color_harmony_info :: "skimage \<Rightarrow> real list \<Rightarrow> exn + (string \<times> hvalue) list" where
  "get_color_harmony_info sk rgb_color =
     (case harmony_body sk rgb_color of
        Inr harmony_info \<Rightarrow> Inr harmony_info
      | Inl e \<Rightarrow> Inr harmony_default)"

text \<open>The analysis record, a dict with these nine keys in the source.\<close>

record analysis =
  category :: string
  undertone :: string
  lightness :: real
  temperature :: string
  dominant_colors :: "pixel list"
  average_color :: "real list"
  harmony_info :: "(string \<times> hvalue) list"
  skin_pixel_count :: nat
  confidence :: real

text \<open>
  \<open>analyze_skin_tone\<close>. The \<open>ValueError\<close> for an empty mask is raised inside the
  \<open>try\<close> block, so the handler of the function catches it with every other exception.
  The mean is taken over at least one pixel: the mask has a positive cell on this path.
\<close>

definition analyze_skin_tone :: "cv2 \<Rightarrow> kmeans \<Rightarrow> skimage \<Rightarrow> image \<Rightarrow> exn + analysis" where
  "analyze_skin_tone cv km sk img =
     reraise ''Skin tone analysis failed: ''
       (and_then (detect_skin_regions cv img) (\<lambda>skin_mask.
        if np_sum skin_mask = 0
        then Inl (ValueError ''No skin regions detected in the image'')
        else
          and_then (boolean_index img skin_mask) (\<lambda>skin_pixels.
          and_then (get_dominant_colors km skin_pixels 5) (\<lambda>dominant.
          let avg_skin_color = np_mean_axis0 skin_pixels;
              lightness_value = calculate_lightness sk avg_skin_color;
              category_value = classify_skin_tone_category lightness_value;
              undertone_value = determine_undertone avg_skin_color skin_pixels;
              temperature_value = calculate_color_temperature avg_skin_color
          in and_then (get_color_harmony_info sk avg_skin_color) (\<lambda>harmony.
             Inr \<lparr>category = category_value,
                  undertone = undertone_value,
                  lightness = lightness_value,
                  temperature = temperature_value,
                  dominant_colors = dominant,
                  average_color = avg_skin_color,
                  harmony_info = harmony,
                  skin_pixel_count = length skin_pixels,
                  confidence = calculate_confidence skin_mask img\<rparr>)))))"

section \<open>SkinToneModifier\<close>

text \<open>
  \<open>_detect_skin_mask\<close>: the detector of the modifier, with the thresholds of
  \<open>skin_detection_params\<close> and a 5 x 5 blur.
\<close>

definition detect_skin_mask :: "cv2 \<Rightarrow> image \<Rightarrow> exn + mask" where
  "detect_skin_mask cv img =
     reraise ''Skin mask detection failed: ''
       (and_then (cvtColor cv img COLOR_RGB2HSV) (\<lambda>hsv.
        and_then (cvtColor cv img COLOR_RGB2YCrCb) (\<lambda>ycrcb.
        and_then (inRange cv hsv (0, 20, 70) (20, 255, 255)) (\<lambda>mask_hsv.
        and_then (inRange cv ycrcb (0, 135, 85) (255, 180, 135)) (\<lambda>mask_ycrcb.
        and_then (bitwise_and cv mask_hsv mask_ycrcb) (\<lambda>skin_mask.
        and_then (getStructuringElement cv MORPH_ELLIPSE (5, 5)) (\<lambda>kernel.
        and_then (morphologyEx cv skin_mask MORPH_OPEN kernel) (\<lambda>skin_mask.
        and_then (morphologyEx cv skin_mask MORPH_CLOSE kernel) (\<lambda>skin_mask.
        GaussianBlur cv skin_mask (5, 5) 0)))))))))"

text \<open>
  \<open>adjust_lightness\<close>. \<open>lightness_lab\<close> is the 8-bit LAB array that the function hands to
  the conversion back to RGB: the L channel times the factor, clipped to 0..100, at the
  cells where the mask is positive.
\<close>

definition lightness_lab :: "mask \<Rightarrow> image \<Rightarrow> real \<Rightarrow> exn + image" where
  "lightness_lab skin_mask lab8 adjustment =
     (let lab = map2d pixel_float lab8;
          adjustment_factor = 1.0 + (adjustment / 100.0)
      in and_then
           (np_where skin_mask
              (map2d (\<lambda>l. clip (l * adjustment_factor) 0 100) (channel0 lab))
              (channel0 lab)) (\<lambda>l_new.
         let lab = set_channel0 lab l_new
         in Inr (map2d pixel_uint8 lab)))"

definition adjust_lightness :: "cv2 \<Rightarrow> image \<Rightarrow> real \<Rightarrow> exn + image" where
  "adjust_lightness cv img adjustment =
     reraise ''Lightness adjustment failed: ''
       (let result = img in
        and_then (detect_skin_mask cv img) (\<lambda>skin_mask.
        if np_sum skin_mask = 0 then Inr result
        else
          and_then (cvtColor cv result COLOR_RGB2LAB) (\<lambda>lab8.
          and_then (lightness_lab skin_mask lab8 adjustment) (\<lambda>lab.
          cvtColor cv lab COLOR_LAB2RGB))))"

text \<open>\<open>adjust_warmth\<close>: red and blue are scaled in floating-point RGB, green is not touched.\<close>

definition adjust_warmth :: "cv2 \<Rightarrow> image \<Rightarrow> real \<Rightarrow> exn + image" where
  "adjust_warmth cv img adjustment =
     reraise ''Warmth adjustment failed: ''
       (let result = map2d pixel_float img in
        and_then (detect_skin_mask cv img) (\<lambda>skin_mask.
        if np_sum skin_mask = 0 then Inr img
        else
          let warmth_factor = adjustment / 100.0;
              red_adjustment =
                (if warmth_factor > 0 then 1.0 + (warmth_factor * 0.3)
                 else 1.0 + (warmth_factor * 0.2));
              blue_adjustment =
                (if warmth_factor > 0 then 1.0 - (warmth_factor * 0.2)
                 else 1.0 - (warmth_factor * 0.3))
          in and_then
               (np_where skin_mask
                  (map2d (\<lambda>c. clip (c * red_adjustment) 0 255) (channel0 result))
                  (channel0 result)) (\<lambda>red_new.
             let result = set_channel0 result red_new
             in and_then
                  (np_where skin_mask
                     (map2d (\<lambda>c. clip (c * blue_adjustment) 0 255) (channel2 result))
                     (channel2 result)) (\<lambda>blue_new.
                let result = set_channel2 result blue_new
                in Inr (map2d pixel_uint8 result)))))"

text \<open>\<open>adjust_saturation\<close>: the S channel of the 8-bit HSV image is scaled and clipped to 0..255.\<close>

definition adjust_saturation :: "cv2 \<Rightarrow> image \<Rightarrow> real \<Rightarrow> exn + image" where
  "adjust_saturation cv img adjustment =
     reraise ''Saturation adjustment failed: ''
       (let result = img in
        and_then (detect_skin_mask cv img) (\<lambda>skin_mask.
        if np_sum skin_mask = 0 then Inr result
        else
          and_then (cvtColor cv result COLOR_RGB2HSV) (\<lambda>hsv8.
          let hsv = map2d pixel_float hsv8;
              saturation_factor = 1.0 + (adjustment / 100.0)
          in and_then
               (np_where skin_mask
                  (map2d (\<lambda>s. clip (s * saturation_factor) 0 255) (channel1 hsv))
                  (channel1 hsv)) (\<lambda>s_new.
             let hsv = set_channel1 hsv s_new;
                 hsv = map2d pixel_uint8 hsv
             in cvtColor cv hsv COLOR_HSV2RGB))))"

section \<open>The warmth adjustment in the words of the specification\<close>


section \<open>Stand-in libraries\<close>

text \<open>
  Library records on which the model can be evaluated. \<open>cv2_stub conv m\<close> converts colour
  spaces with \<open>conv\<close> and thresholds every image to the mask \<open>m\<close>; its morphology and blur
  leave a mask as it is. \<open>kmeans_stub\<close> validates its input as scikit-learn does (no
  samples, or fewer samples than clusters, raise \<open>ValueError\<close>) and returns a given fit
  otherwise; scikit-learn also returns a fit, with a warning only, when the samples hold
  fewer distinct points than clusters.
\<close>

definition convert_identity :: "image \<Rightarrow> color_code \<Rightarrow> exn + image" where
  "convert_identity img code = Inr img"

definition convert_failing :: "image \<Rightarrow> color_code \<Rightarrow> exn + image" where
  "convert_failing img code = Inl (LibError ''Unsupported depth of input image'')"

definition cv2_stub :: "(image \<Rightarrow> color_code \<Rightarrow> exn + image) \<Rightarrow> mask \<Rightarrow> cv2" where
  "cv2_stub conv m =
     \<lparr>cvtColor = conv,
      inRange = (\<lambda>a lower upper. Inr m),
      bitwise_and = (\<lambda>a b. Inr (map2d (\<lambda>(x, y). and x y) (zip2d a b))),
      getStructuringElement = (\<lambda>shape ksize. Inr (replicate (fst ksize) (replicate (snd ksize) 1))),
      morphologyEx = (\<lambda>a op kernel. Inr a),
      GaussianBlur = (\<lambda>a ksize sigma. Inr a)\<rparr>"

definition kmeans_stub :: "fpixel list \<Rightarrow> nat list \<Rightarrow> kmeans" where
  "kmeans_stub centers labels n_clusters random_state n_init pixels =
     (if pixels = [] then Inl (ValueError ''Found array with 0 sample(s)'')
      else if length pixels < n_clusters then Inl (ValueError ''n_samples should be >= n_clusters'')
      else Inr (centers, labels))"

definition skimage_stub :: "(fpixel \<Rightarrow> exn + fpixel) \<Rightarrow> skimage" where
  "skimage_stub hsv =
     \<lparr>rgb2lab = (\<lambda>(r, g, b). Inr (100 * ((r + g + b) / 3), 0, 0)),
      rgb2hsv = hsv\<rparr>"

section \<open>Classification by lightness\<close>

lemma classify_loop_table:
  "classify_loop skin_tone_categories L =
     (if 0 \<le> L \<and> L < 25 then Some ''Very Light''
      else if 25 \<le> L \<and> L < 40 then Some ''Light''
      else if 40 \<le> L \<and> L < 55 then Some ''Light Medium''
      else if 55 \<le> L \<and> L < 70 then Some ''Medium''
      else if 70 \<le> L \<and> L < 85 then Some ''Medium Dark''
      else if 85 \<le> L \<and> L < 100 then Some ''Dark''
      else None)"
  by (simp add: skin_tone_categories_def)

lemma classify_table:
  "classify_skin_tone_category L =
     (if L < 25 then ''Very Light''
      else if L < 40 then ''Light''
      else if L < 55 then ''Light Medium''
      else if L < 70 then ''Medium''
      else if L < 85 then ''Medium Dark''
      else ''Dark'')"
  by (simp add: classify_skin_tone_category_def classify_loop_table)

lemma category_member:
  "entry \<in> set skin_tone_categories \<longleftrightarrow>
     entry = (''very_light'', (0, 25), ''Very Light'') \<or>
     entry = (''light'', (25, 40), ''Light'') \<or>
     entry = (''light_medium'', (40, 55), ''Light Medium'') \<or>
     entry = (''medium'', (55, 70), ''Medium'') \<or>
     entry = (''medium_dark'', (70, 85), ''Medium Dark'') \<or>
     entry = (''dark'', (85, 100), ''Dark'')"
  by (simp add: skin_tone_categories_def)

lemma category_unique:
  assumes "0 \<le> L" "L < 100"
  shows "\<exists>!entry. entry \<in> set skin_tone_categories \<and> in_range entry L"
proof -
  consider (a) "L < 25" | (b) "25 \<le> L" "L < 40" | (c) "40 \<le> L" "L < 55"
    | (d) "55 \<le> L" "L < 70" | (e) "70 \<le> L" "L < 85" | (f) "85 \<le> L"
    by linarith
  then show ?thesis
  proof cases
    case a
    show ?thesis
      by (rule ex1I [of _ "(''very_light'', (0, 25), ''Very Light'')"])
        (use a assms in \<open>auto simp: category_member\<close>)
  next
    case b
    show ?thesis
      by (rule ex1I [of _ "(''light'', (25, 40), ''Light'')"])
        (use b in \<open>auto simp: category_member\<close>)
  next
    case c
    show ?thesis
      by (rule ex1I [of _ "(''light_medium'', (40, 55), ''Light Medium'')"])
        (use c in \<open>auto simp: category_member\<close>)
  next
    case d
    show ?thesis
      by (rule ex1I [of _ "(''medium'', (55, 70), ''Medium'')"])
        (use d in \<open>auto simp: category_member\<close>)
  next
    case e
    show ?thesis
      by (rule ex1I [of _ "(''medium_dark'', (70, 85), ''Medium Dark'')"])
        (use e in \<open>auto simp: category_member\<close>)
  next
    case f
    show ?thesis
      by (rule ex1I [of _ "(''dark'', (85, 100), ''Dark'')"])
        (use f assms in \<open>auto simp: category_member\<close>)
  qed
qed

lemma category_of_match:
  assumes "entry \<in> set skin_tone_categories" "in_range entry L"
  shows "classify_skin_tone_category L = category_name entry"
  using assms unfolding category_member classify_table by auto

text \<open>
  Claim C3. For every lightness from 0 up to, not including, 100 exactly one of the six
  entries of the table matches, and the classification returns its name: Very Light below
  25, Light from 25, Light Medium from 40, Medium from 55, Medium Dark from 70, Dark from
  85. Lightness 25 is Light. A lightness of 100 or above is Dark and a negative one is
  Very Light.
\<close>

theorem lightness_classification_exhaustive:
  "(0 \<le> L \<and> L < 100 \<longrightarrow>
      (\<exists>!entry. entry \<in> set skin_tone_categories \<and> in_range entry L) \<and>
      (\<forall>entry \<in> set skin_tone_categories.
         in_range entry L \<longrightarrow> classify_skin_tone_category L = category_name entry) \<and>
      classify_skin_tone_category L =
        (if L < 25 then ''Very Light'' else if L < 40 then ''Light''
         else if L < 55 then ''Light Medium'' else if L < 70 then ''Medium''
         else if L < 85 then ''Medium Dark'' else ''Dark''))
   \<and> classify_skin_tone_category 25 = ''Light''
   \<and> (100 \<le> L \<longrightarrow> classify_skin_tone_category L = ''Dark'')
   \<and> (L < 0 \<longrightarrow> classify_skin_tone_category L = ''Very Light'')"
proof -
  have "classify_skin_tone_category 25 = ''Light''"
    by (simp add: classify_table)
  moreover have "classify_skin_tone_category L = ''Dark''" if "100 \<le> L"
    using that by (simp add: classify_table)
  moreover have "classify_skin_tone_category L = ''Very Light''" if "L < 0"
    using that by (simp add: classify_table)
  ultimately show ?thesis
    using category_unique [of L] category_of_match [of _ L] classify_table [of L] by blast
qed

theorem lightness_classification_witness:
  "classify_skin_tone_category 25 = ''Light'' \<and> classify_skin_tone_category 24.9 = ''Very Light''
   \<and> classify_skin_tone_category 100 = ''Dark'' \<and> classify_skin_tone_category (- 3) = ''Very Light''
   \<and> (\<exists>!entry. entry \<in> set skin_tone_categories \<and> in_range entry 25)"
  using lightness_classification_exhaustive [of 25] lightness_classification_exhaustive [of "24.9"]
    lightness_classification_exhaustive [of 100] lightness_classification_exhaustive [of "- 3"]
  by simp









section \<open>Exceptions and handlers\<close>

lemma and_then_simps [simp]:
  "and_then (Inr x) f = f x"
  "and_then (Inl e) f = Inl e"
  by (simp_all add: and_then_def)

lemma reraise_simps [simp]:
  "reraise prefix (Inr x) = Inr x"
  "reraise prefix (Inl e) = Inl (ValueError (prefix @ str_exn e))"
  by (simp_all add: reraise_def)


lemma reraise_Inr_iff: "reraise prefix m = Inr x \<longleftrightarrow> m = Inr x"
  by (cases m) auto

lemma np_sum_zero_iff: "np_sum m = 0 \<longleftrightarrow> list_all (list_all (\<lambda>w. w = 0)) m"
  by (auto simp: np_sum_def list_all_iff unat_eq_0)

section \<open>Colour harmony\<close>

lemma get_color_harmony_info_total: "\<exists>info. get_color_harmony_info sk rgb_color = Inr info"
  by (simp add: get_color_harmony_info_def split: sum.split)

lemma harmony_body_keys:
  assumes "harmony_body sk rgb_color = Inr info"
  shows "map fst info =
    [''base_hue'', ''complementary'', ''triadic'', ''analogous'', ''saturation'', ''value'']"
proof -
  obtain r g b where c: "reshape_1_1_3 rgb_color = Inr (r, g, b)"
    using assms by (cases "reshape_1_1_3 rgb_color") (auto simp: harmony_body_def)
  obtain h s v where hsv: "rgb2hsv sk (r / 255, g / 255, b / 255) = Inr (h, s, v)"
    using assms c by (cases "rgb2hsv sk (r / 255, g / 255, b / 255)") (auto simp: harmony_body_def)
  show ?thesis
    using assms c hsv by (auto simp: harmony_body_def Let_def)
qed

lemma analysis_harmony:
  assumes "analyze_skin_tone cv km sk img = Inr r"
  shows "get_color_harmony_info sk (average_color r) = Inr (harmony_info r)"
  using assms get_color_harmony_info_total [of sk]
  unfolding analyze_skin_tone_def reraise_Inr_iff
  by (auto simp: and_then_def Let_def split: sum.splits if_splits)

text \<open>
  Claim C10. \<open>_get_color_harmony_info\<close> returns for every input. When its body raises, in
  particular when the conversion to hue, saturation and value raises on a three-entry
  colour, it returns the fixed record with base hue 0, complementary 180, triadic 120 and
  240, analogous 30 and 330, which has no \<open>saturation\<close> and no \<open>value\<close> entry, while the
  record of a body that returns has both. An analysis that returns with such a mean colour
  carries the fixed record as its harmony information.
\<close>

theorem harmony_info_never_raises:
  "(\<exists>info. get_color_harmony_info sk rgb_color = Inr info)
   \<and> (\<forall>e. harmony_body sk rgb_color = Inl e \<longrightarrow>
         get_color_harmony_info sk rgb_color = Inr harmony_default)
   \<and> (\<forall>r g b e. rgb_color = [r, g, b] \<and> rgb2hsv sk (r / 255, g / 255, b / 255) = Inl e \<longrightarrow>
         get_color_harmony_info sk rgb_color = Inr harmony_default)
   \<and> harmony_default =
       [(''base_hue'', Num 0), (''complementary'', Num 180),
        (''triadic'', Nums [120, 240]), (''analogous'', Nums [30, 330])]
   \<and> ''saturation'' \<notin> set (map fst harmony_default)
   \<and> ''value'' \<notin> set (map fst harmony_default)
   \<and> (\<forall>info. harmony_body sk rgb_color = Inr info \<longrightarrow>
         get_color_harmony_info sk rgb_color = Inr info \<and>
         ''saturation'' \<in> set (map fst info) \<and> ''value'' \<in> set (map fst info))
   \<and> (\<forall>res e. analyze_skin_tone cv km sk img = Inr res \<and>
         harmony_body sk (average_color res) = Inl e \<longrightarrow>
         harmony_info res = harmony_default)"
proof -
  have a: "get_color_harmony_info sk c = Inr harmony_default" if "harmony_body sk c = Inl e" for c e
    using that by (simp add: get_color_harmony_info_def)
  have b: "harmony_body sk [r, g, b] = Inl e" if "rgb2hsv sk (r / 255, g / 255, b / 255) = Inl e"
    for r g b e
    using that by (simp add: harmony_body_def reshape_1_1_3_def)
  have c: "get_color_harmony_info sk rgb_color = Inr info \<and>
         ''saturation'' \<in> set (map fst info) \<and> ''value'' \<in> set (map fst info)"
    if "harmony_body sk rgb_color = Inr info" for info
    using that harmony_body_keys [OF that] by (simp add: get_color_harmony_info_def)
  have d: "harmony_info res = harmony_default"
    if "analyze_skin_tone cv km sk img = Inr res" "harmony_body sk (average_color res) = Inl e"
    for res e
    using analysis_harmony [OF that(1)] a [OF that(2)] by simp
  show ?thesis
    using get_color_harmony_info_total [of sk rgb_color] a b c d
    by (simp add: harmony_default_def)
qed

lemmas stub_defs = cv2_stub_def kmeans_stub_def skimage_stub_def convert_identity_def
  convert_failing_def

lemmas numpy_defs = np_sum_def boolean_index_def same_shape_def map2d_def zip2d_def
  np_where_def clip_def astype_float_def astype_uint8_def trunc_def pixel_float_def
  pixel_uint8_def channel0_def channel1_def channel2_def set_channel0_def set_channel1_def
  set_channel2_def np_mean_def np_mean_axis0_def reshape_1_1_3_def bincount_def argsort_def
  take_rows_def py_mod_def shape0_def shape1_def count_positive_def

theorem harmony_info_never_raises_witness:
  "get_color_harmony_info (skimage_stub (\<lambda>c. Inl (LibError ''no conversion''))) [200, 150, 120]
     = Inr harmony_default
   \<and> (\<exists>info. get_color_harmony_info (skimage_stub Inr) [200, 150, 120] = Inr info \<and>
         ''saturation'' \<in> set (map fst info) \<and> ''value'' \<in> set (map fst info))
   \<and> (\<exists>res. analyze_skin_tone (cv2_stub convert_identity [ [255, 255, 255, 255, 255] ])
          (kmeans_stub [(200, 150, 120)] [0, 0, 0, 0, 0])
          (skimage_stub (\<lambda>c. Inl (LibError ''no conversion'')))
          [ [(200, 150, 120), (200, 150, 120), (200, 150, 120), (200, 150, 120), (200, 150, 120)] ]
          = Inr res \<and> harmony_info res = harmony_default)"
proof -
  let ?sk = "skimage_stub (\<lambda>c. Inl (LibError ''no conversion''))"
  let ?cv = "cv2_stub convert_identity [ [255, 255, 255, 255, 255] ]"
  let ?km = "kmeans_stub [(200, 150, 120)] [0, 0, 0, 0, 0]"
  let ?img = "[ [(200, 150, 120), (200, 150, 120), (200, 150, 120), (200, 150, 120),
                (200, 150, 120)] ] :: image"
  have body: "harmony_body ?sk [200, 150, 120] = Inl (LibError ''no conversion'')"
    by (simp add: harmony_body_def reshape_1_1_3_def skimage_stub_def)
  obtain info where good: "harmony_body (skimage_stub Inr) [200, 150, 120] = Inr info"
    by (simp add: harmony_body_def reshape_1_1_3_def skimage_stub_def Let_def)
  have det: "detect_skin_regions ?cv ?img = Inr [ [255, 255, 255, 255, 255] ]"
    by (simp add: detect_skin_regions_def stub_defs map2d_def zip2d_def)
  have dom: "get_dominant_colors ?km (concat ?img) 5 = Inr [(200, 150, 120)]"
    by (simp add: get_dominant_colors_def stub_defs numpy_defs)
  obtain res where res: "analyze_skin_tone ?cv ?km ?sk ?img = Inr res"
    and avg: "average_color res = [200, 150, 120]"
    using det dom
    by (simp add: analyze_skin_tone_def numpy_defs Let_def get_color_harmony_info_def body)
  have a: "get_color_harmony_info ?sk [200, 150, 120] = Inr harmony_default"
    and c: "harmony_info res = harmony_default"
    using harmony_info_never_raises [of ?sk "[200, 150, 120]" ?cv ?km ?img] body res avg
    by auto
  have b: "get_color_harmony_info (skimage_stub Inr) [200, 150, 120] = Inr info \<and>
         ''saturation'' \<in> set (map fst info) \<and> ''value'' \<in> set (map fst info)"
    using harmony_info_never_raises [of "skimage_stub Inr" "[200, 150, 120]"] good by blast
  show ?thesis using a b c res by blast
qed

section \<open>Analysis of an image without skin\<close>







section \<open>Adjustments of an image without skin\<close>

lemma adjust_noop:
  assumes "detect_skin_mask cv img = Inr skin_mask" "np_sum skin_mask = 0"
  shows "adjust_lightness cv img m = Inr img" "adjust_warmth cv img m = Inr img"
    "adjust_saturation cv img m = Inr img"
  using assms by (simp_all add: adjust_lightness_def adjust_warmth_def adjust_saturation_def)

text \<open>
  Claim C2. When the detected skin mask is entirely zero, the lightness, the warmth and the
  saturation adjustment each return the input image, for every magnitude from -50 to 50,
  and none of them raises.
\<close>

theorem zero_mask_adjustment_is_identity:
  "detect_skin_mask cv img = Inr skin_mask \<and> list_all (list_all (\<lambda>w. w = 0)) skin_mask
     \<and> - 50 \<le> magnitude \<and> magnitude \<le> 50 \<longrightarrow>
   adjust_lightness cv img magnitude = Inr img \<and>
   adjust_warmth cv img magnitude = Inr img \<and>
   adjust_saturation cv img magnitude = Inr img"
  using adjust_noop [of cv img skin_mask magnitude] by (simp add: np_sum_zero_iff)

theorem zero_mask_adjustment_is_identity_witness:
  "adjust_lightness (cv2_stub convert_identity [ [0, 0] ]) [ [(10, 20, 30), (200, 150, 120)] ] 50
     = Inr [ [(10, 20, 30), (200, 150, 120)] ]
   \<and> adjust_warmth (cv2_stub convert_identity [ [0, 0] ]) [ [(10, 20, 30), (200, 150, 120)] ] 50
     = Inr [ [(10, 20, 30), (200, 150, 120)] ]
   \<and> adjust_saturation (cv2_stub convert_identity [ [0, 0] ]) [ [(10, 20, 30), (200, 150, 120)] ] 50
     = Inr [ [(10, 20, 30), (200, 150, 120)] ]"
proof -
  have "detect_skin_mask (cv2_stub convert_identity [ [0, 0] ]) [ [(10, 20, 30), (200, 150, 120)] ]
    = Inr [ [0, 0] ]"
    by (simp add: detect_skin_mask_def stub_defs map2d_def zip2d_def)
  then show ?thesis
    using zero_mask_adjustment_is_identity
      [of "cv2_stub convert_identity [ [0, 0] ]" "[ [(10, 20, 30), (200, 150, 120)] ]" "[ [0, 0] ]" 50]
    by simp
qed


section \<open>Dominant colours\<close>

lemma fold_max_less:
  fixes n :: nat
  assumes "a < n" "\<forall>l \<in> set ls. l < n"
  shows "fold max ls a < n"
  using assms by (induction ls arbitrary: a) auto

lemma bincount_length_le:
  assumes "\<forall>l \<in> set labels. l < n"
  shows "length (bincount labels) \<le> n"
proof (cases "labels = []")
  case True
  then show ?thesis by (simp add: bincount_def)
next
  case False
  then obtain l where "l \<in> set labels" by (cases labels) auto
  with assms have "0 < n" by fastforce
  then have "fold max labels 0 < n" using assms by (rule fold_max_less)
  then show ?thesis using False by (simp add: bincount_def)
qed

lemma set_argsort: "set (argsort a) = {0..<length a}"
  by (simp add: argsort_def)

lemma distinct_argsort: "distinct (argsort a)"
  by (simp add: argsort_def)

lemma take_rows_Inr:
  assumes "\<forall>i \<in> set idx. i < length a"
  shows "take_rows a idx = Inr (map (\<lambda>i. a ! i) idx)"
  using assms by (simp add: take_rows_def list_all_iff)

lemma dominant_colors_of_fit:
  assumes "km k 42 10 pixels = Inr (centers, labels)" "\<forall>l \<in> set labels. l < length centers"
  shows "get_dominant_colors km pixels k =
    Inr (map (\<lambda>i. pixel_uint8 (centers ! i)) (rev (argsort (bincount labels))))"
proof -
  have "\<forall>i \<in> set (rev (argsort (bincount labels))). i < length centers"
    using bincount_length_le [OF assms(2)] by (auto simp: set_argsort)
  then have "take_rows centers (rev (argsort (bincount labels))) =
      Inr (map (\<lambda>i. centers ! i) (rev (argsort (bincount labels))))"
    by (rule take_rows_Inr)
  then show ?thesis
    using assms(1) by (simp add: get_dominant_colors_def Let_def comp_def)
qed

lemma dominant_colors_library_failure:
  assumes "km k 42 10 pixels = Inl e"
  shows "get_dominant_colors km pixels k =
    Inl (ValueError (''Dominant color extraction failed: '' @ str_exn e))"
  using assms by (simp add: get_dominant_colors_def)

text \<open>
  Claim C7, as the code has it. Dominant colour extraction tests neither the size of the
  pixel set nor the number of its distinct pixels. It fails, with a \<open>ValueError\<close> whose
  message starts with \<open>Dominant color extraction failed: \<close>, when the clustering call
  raises (scikit-learn does for an empty set and for fewer samples than clusters); when
  the clustering returns a fit whose labels index its centres, extraction returns a result.
\<close>

theorem dominant_colors_fail_with_clustering:
  "(\<forall>e. km k 42 10 pixels = Inl e \<longrightarrow>
      get_dominant_colors km pixels k =
        Inl (ValueError (''Dominant color extraction failed: '' @ str_exn e)))
   \<and> (\<forall>centers labels. km k 42 10 pixels = Inr (centers, labels) \<and>
         list_all (\<lambda>l. l < length centers) labels \<longrightarrow>
         (\<exists>cols. get_dominant_colors km pixels k = Inr cols))"
  using dominant_colors_library_failure [of km k pixels] dominant_colors_of_fit [of km k pixels]
  by (simp add: list_all_iff)

theorem dominant_colors_fail_with_clustering_witness:
  "get_dominant_colors (kmeans_stub [(200, 150, 120)] [0]) [] 5 =
     Inl (ValueError ''Dominant color extraction failed: Found array with 0 sample(s)'')
   \<and> get_dominant_colors (kmeans_stub [(200, 150, 120)] [0]) [(200, 150, 120)] 5 =
     Inl (ValueError ''Dominant color extraction failed: n_samples should be >= n_clusters'')
   \<and> (\<exists>cols. get_dominant_colors (kmeans_stub [(1, 2, 3), (1, 2, 3)] [0, 0])
         [(1, 2, 3), (1, 2, 3)] 2 = Inr cols)"
  using dominant_colors_fail_with_clustering [of "kmeans_stub [(200, 150, 120)] [0]" 5 "[]"]
    dominant_colors_fail_with_clustering
      [of "kmeans_stub [(200, 150, 120)] [0]" 5 "[(200, 150, 120)]"]
    dominant_colors_fail_with_clustering
      [of "kmeans_stub [(1, 2, 3), (1, 2, 3)] [0, 0]" 2 "[(1, 2, 3), (1, 2, 3)]"]
  by (simp add: kmeans_stub_def)

text \<open>
  Two equal pixels and two requested clusters: one distinct pixel, fewer than k. The
  clustering returns a fit with one populated cluster and the extraction returns it.
\<close>

theorem degenerate_pixels_return_counterexample:
  "get_dominant_colors (kmeans_stub [(1, 2, 3), (1, 2, 3)] [0, 0]) [(1, 2, 3), (1, 2, 3)] 2 =
     Inr [(1, 2, 3)]"
  by (simp add: get_dominant_colors_def kmeans_stub_def numpy_defs)

section \<open>Arrays of one shape\<close>

lemma map2d_map2d: "map2d f (map2d g a) = map2d (\<lambda>x. f (g x)) a"
  by (simp add: map2d_def comp_def)

lemma zip_map_same: "zip (map f r) (map g r) = map (\<lambda>x. (f x, g x)) r"
  by (induction r) auto

lemma zip2d_map2d_same: "zip2d (map2d f a) (map2d g a) = map2d (\<lambda>x. (f x, g x)) a"
  by (induction a) (auto simp: zip2d_def map2d_def zip_map_same)

lemma same_shape_map2d: "same_shape (map2d f a) (map2d g a)"
  by (simp add: same_shape_def map2d_def comp_def)

lemma unzip2d:
  assumes "same_shape a b"
  shows "map2d fst (zip2d a b) = a" "map2d snd (zip2d a b) = b"
  using assms
proof (induction a arbitrary: b)
  case Nil
  { case 1 then show ?case by (simp add: zip2d_def map2d_def) }
  { case 2 then show ?case by (simp add: zip2d_def map2d_def same_shape_def) }
next
  case (Cons r a)
  { case 1
    then obtain s b' where b: "b = s # b'" by (cases b) (auto simp: same_shape_def)
    with 1 have "length r = length s" "same_shape a b'" by (auto simp: same_shape_def)
    with Cons.IH(1) [of b'] b show ?case by (simp add: zip2d_def map2d_def) }
  { case 2
    then obtain s b' where b: "b = s # b'" by (cases b) (auto simp: same_shape_def)
    with 2 have "length r = length s" "same_shape a b'" by (auto simp: same_shape_def)
    with Cons.IH(2) [of b'] b show ?case by (simp add: zip2d_def map2d_def) }
qed



lemma trunc_of_nat: "trunc (real n) = int n"
  by (simp add: trunc_def)

lemma uint8_of_float [simp]: "astype_uint8 (astype_float w) = w"
proof -
  have "word_of_int (int (unat w)) = w" by simp
  then show ?thesis
    unfolding astype_uint8_def astype_float_def trunc_of_nat .
qed

lemma astype_uint8_in_range:
  assumes "0 \<le> c" "c < 256"
  shows "unat (astype_uint8 c) = nat \<lfloor>c\<rfloor>"
proof -
  have "0 \<le> \<lfloor>c\<rfloor>" "\<lfloor>c\<rfloor> < 256" using assms by (simp_all add: floor_less_iff)
  then show ?thesis
    using assms by (simp add: astype_uint8_def trunc_def unat_eq_nat_uint uint_word_of_int)
qed


section \<open>The warmth adjustment\<close>

lemma map2d_cong: "(\<And>x. f x = g x) \<Longrightarrow> map2d f a = map2d g a"
  by (simp add: map2d_def)

lemma same_shape_refl: "same_shape a a"
  by (simp add: same_shape_def)










section \<open>The lightness adjustment at magnitude zero\<close>

lemma clip_nat_100: "clip (real n) 0 100 = real (if 100 < n then 100 else n)"
  by (simp add: clip_def)

lemma clip_lightness_zero:
  "astype_uint8 (clip (astype_float l) 0 100) = (if 100 < l then 100 else l)"
proof -
  have "astype_uint8 (clip (astype_float l) 0 100) =
      word_of_int (int (if 100 < unat l then 100 else unat l))"
    unfolding astype_float_def clip_nat_100 astype_uint8_def trunc_of_nat ..
  also have "\<dots> = (if 100 < l then 100 else l)"
    by (simp add: word_less_nat_alt)
  finally show ?thesis .
qed

lemma lightness_lab_on_grid:
  "lightness_lab (map2d fst Z) (map2d snd Z) 0 =
     Inr (map2d (\<lambda>(w, (l, a, b)). (if 0 < w \<and> 100 < l then 100 else l, a, b)) Z)"
  unfolding lightness_lab_def Let_def
  apply (simp add: np_where_def channel0_def set_channel0_def map2d_map2d zip2d_map2d_same
      same_shape_map2d)
  apply (rule map2d_cong)
  apply (auto simp: pixel_float_def pixel_uint8_def clip_lightness_zero split: prod.splits)
  done

lemma lightness_zero_pipeline:
  assumes "detect_skin_mask cv img = Inr skin_mask" "np_sum skin_mask \<noteq> 0"
    "cvtColor cv img COLOR_RGB2LAB = Inr lab" "same_shape skin_mask lab"
  shows "adjust_lightness cv img 0 =
    reraise ''Lightness adjustment failed: ''
      (cvtColor cv
         (map2d (\<lambda>(w, (l, a, b)). (if 0 < w \<and> 100 < l then 100 else l, a, b))
            (zip2d skin_mask lab))
         COLOR_LAB2RGB)"
proof -
  define Z where "Z = zip2d skin_mask lab"
  have m: "map2d fst Z = skin_mask" and i: "map2d snd Z = lab"
    using unzip2d [OF assms(4)] by (simp_all add: Z_def)
  have "lightness_lab skin_mask lab 0 =
     Inr (map2d (\<lambda>(w, (l, a, b)). (if 0 < w \<and> 100 < l then 100 else l, a, b)) Z)"
    using lightness_lab_on_grid [of Z] unfolding m i .
  then show ?thesis
    using assms(1-3) unfolding Z_def by (simp add: adjust_lightness_def)
qed

text \<open>
  Claim C9 does not hold of the code. With magnitude 0 and some skin detected,
  \<open>adjust_lightness\<close> does not convert the LAB image of the input back: under every positive
  mask cell it first lowers an 8-bit L channel above 100 to 100, because the clip bounds
  0..100 are applied to a channel that OpenCV scales to 0..255. The other cells and
  channels are handed on as they are.
\<close>

theorem lightness_zero_caps_skin_lightness:
  "detect_skin_mask cv img = Inr skin_mask \<and> np_sum skin_mask \<noteq> 0 \<and>
   cvtColor cv img COLOR_RGB2LAB = Inr lab \<and> same_shape skin_mask lab \<longrightarrow>
   adjust_lightness cv img 0 =
     reraise ''Lightness adjustment failed: ''
       (cvtColor cv
          (map2d (\<lambda>(w, (l, a, b)). (if 0 < w \<and> 100 < l then 100 else l, a, b))
             (zip2d skin_mask lab))
          COLOR_LAB2RGB)"
  using lightness_zero_pipeline [of cv img skin_mask lab] by blast

theorem lightness_zero_caps_skin_lightness_witness:
  "adjust_lightness (cv2_stub convert_identity [ [255, 0] ])
     [ [(200, 140, 100), (200, 140, 100)] ] 0 = Inr [ [(100, 140, 100), (200, 140, 100)] ]"
proof -
  let ?cv = "cv2_stub convert_identity [ [255, 0] ]"
  let ?img = "[ [(200, 140, 100), (200, 140, 100)] ] :: image"
  have det: "detect_skin_mask ?cv ?img = Inr [ [255, 0] ]"
    by (simp add: detect_skin_mask_def stub_defs map2d_def zip2d_def)
  have lab: "cvtColor ?cv ?img COLOR_RGB2LAB = Inr ?img"
    by (simp add: stub_defs)
  have sh: "same_shape [ [255, 0 :: 8 word] ] ?img" by (simp add: same_shape_def)
  have s: "np_sum [ [255, 0] ] \<noteq> 0" by (simp add: np_sum_def)
  show ?thesis
    using lightness_zero_caps_skin_lightness [of ?cv ?img "[ [255, 0] ]" ?img] det lab sh s
    by (simp add: map2d_def zip2d_def stub_defs)
qed


section \<open>Dominant colours by population\<close>

lemma bincount_nth:
  assumes "i < length (bincount ls)"
  shows "bincount ls ! i = count_list ls i"
  using assms by (cases "ls = []") (simp_all add: bincount_def del: upt_Suc)

lemma argsort_populations:
  "map (count_list labels) (argsort (bincount labels)) =
   map (\<lambda>i. bincount labels ! i) (argsort (bincount labels))"
  by (rule map_cong) (simp_all add: set_argsort bincount_nth)

lemma sorted_argsort_populations:
  "sorted (map (count_list labels) (argsort (bincount labels)))"
  unfolding argsort_populations unfolding argsort_def by (rule sorted_sort_key)

lemma dominant_colors_Inr:
  assumes "km k 42 10 pixels = Inr (centers, labels)" "get_dominant_colors km pixels k = Inr cols"
  shows "cols = map (\<lambda>i. pixel_uint8 (centers ! i)) (rev (argsort (bincount labels)))"
  using assms
  by (auto simp: get_dominant_colors_def Let_def take_rows_def comp_def split: if_splits)

lemma pixel_roundtrip [simp]: "pixel_uint8 (pixel_float p) = p"
  by (simp add: pixel_uint8_def pixel_float_def split: prod.splits)

lemma two_colour_counts:
  assumes "a \<noteq> b" "set xs \<subseteq> {a, b}"
  shows "count_list (map (\<lambda>p. if p = a then 0 else (1::nat)) xs) 0 = count_list xs a"
    and "count_list (map (\<lambda>p. if p = a then 0 else (1::nat)) xs) 1 = count_list xs b"
  using assms by (induction xs) auto

lemma fold_max_two:
  assumes "1 \<in> set ls" "\<forall>l \<in> set ls. l \<le> (1::nat)"
  shows "fold max ls 0 = 1"
proof -
  have "fold max ls 0 = Max (set (0 # ls))" by (rule Max.set_eq_fold [symmetric])
  also have "\<dots> = 1"
    using assms by (intro Max_eqI) auto
  finally show ?thesis .
qed

lemma two_colour_bincount:
  assumes "a \<noteq> b" "set xs = {a, b}"
  shows "bincount (map (\<lambda>p. if p = a then 0 else (1::nat)) xs) = [count_list xs a, count_list xs b]"
proof -
  let ?ls = "map (\<lambda>p. if p = a then 0 else (1::nat)) xs"
  have "b \<in> set xs" using assms(2) by simp
  then have "1 \<in> set ?ls" using assms(1) by force
  moreover have "\<forall>l \<in> set ?ls. l \<le> 1" by auto
  ultimately have "fold max ?ls 0 = 1" by (rule fold_max_two)
  moreover have "?ls \<noteq> []" using \<open>b \<in> set xs\<close> by auto
  moreover have "set xs \<subseteq> {a, b}" using assms(2) by simp
  ultimately show ?thesis
    using two_colour_counts [OF assms(1), of xs]
    by (simp add: bincount_def)
qed

lemma argsort_two:
  "argsort [x, y] = (if x \<le> y then [0, 1] else [1, 0])"
  by (simp add: argsort_def)

lemma nine_to_one_first:
  assumes "a \<noteq> b" "set pixels = {a, b}" "count_list pixels a = 9 * count_list pixels b"
    "km 2 42 10 pixels =
       Inr ([pixel_float a, pixel_float b], map (\<lambda>p. if p = a then 0 else 1) pixels)"
  shows "get_dominant_colors km pixels 2 = Inr [a, b]"
proof -
  have "b \<in> set pixels" using assms(2) by simp
  then have pos: "0 < count_list pixels b" using count_list_0_iff [of pixels b] by auto
  have "bincount (map (\<lambda>p. if p = a then 0 else 1) pixels)
      = [9 * count_list pixels b, count_list pixels b]"
    using two_colour_bincount [OF assms(1,2)] assms(3) by simp
  then have "rev (argsort (bincount (map (\<lambda>p. if p = a then 0 else 1) pixels))) = [0, 1]"
    using pos by (simp add: argsort_two)
  then show ?thesis
    using assms(4) by (simp add: get_dominant_colors_def Let_def take_rows_def)
qed

lemma nine_to_one_second:
  assumes "a \<noteq> b" "set pixels = {a, b}" "count_list pixels a = 9 * count_list pixels b"
    "km 2 42 10 pixels =
       Inr ([pixel_float b, pixel_float a], map (\<lambda>p. if p = b then 0 else 1) pixels)"
  shows "get_dominant_colors km pixels 2 = Inr [a, b]"
proof -
  have "set pixels = {b, a}" using assms(2) by auto
  then have "bincount (map (\<lambda>p. if p = b then 0 else 1) pixels)
      = [count_list pixels b, 9 * count_list pixels b]"
    using two_colour_bincount [of b a pixels] assms(1,3) by simp
  then have "rev (argsort (bincount (map (\<lambda>p. if p = b then 0 else 1) pixels))) = [1, 0]"
    by (simp add: argsort_two)
  then show ?thesis
    using assms(4) by (simp add: get_dominant_colors_def Let_def take_rows_def)
qed

text \<open>
  Claim C6. When extraction returns, its colours are the centres of the fit taken in an
  order of the cluster indices in which the populations (the number of pixels labelled
  with the cluster) descend, and each channel is the centre's channel cast to 8 bits, which
  for a value from 0 up to 256 drops the fraction. For pixels of exactly two colours, nine
  of the first for each one of the second, two requested clusters and a fit that gives each
  colour its own cluster (in either order of the centres), the result is the first colour,
  then the second.
\<close>

theorem dominant_colors_by_population:
  "(km k 42 10 pixels = Inr (centers, labels) \<and> get_dominant_colors km pixels k = Inr cols \<longrightarrow>
      (\<exists>idx. distinct idx \<and> set idx = {0..<length (bincount labels)} \<and>
         cols = map (\<lambda>i. pixel_uint8 (centers ! i)) idx \<and>
         sorted (rev (map (count_list labels) idx))))
   \<and> (0 \<le> c \<and> c < 256 \<longrightarrow> unat (astype_uint8 c) = nat \<lfloor>c\<rfloor>)
   \<and> (a \<noteq> b \<and> set pixels = {a, b} \<and> count_list pixels a = 9 * count_list pixels b \<and>
       (km 2 42 10 pixels =
          Inr ([pixel_float a, pixel_float b], map (\<lambda>p. if p = a then 0 else 1) pixels) \<or>
        km 2 42 10 pixels =
          Inr ([pixel_float b, pixel_float a], map (\<lambda>p. if p = b then 0 else 1) pixels)) \<longrightarrow>
       get_dominant_colors km pixels 2 = Inr [a, b])"
proof -
  have general: "\<exists>idx. distinct idx \<and> set idx = {0..<length (bincount labels)} \<and>
         cols = map (\<lambda>i. pixel_uint8 (centers ! i)) idx \<and>
         sorted (rev (map (count_list labels) idx))"
    if "km k 42 10 pixels = Inr (centers, labels)" "get_dominant_colors km pixels k = Inr cols"
    using dominant_colors_Inr [OF that] sorted_argsort_populations [of labels]
    by (intro exI [of _ "rev (argsort (bincount labels))"])
      (simp add: distinct_argsort set_argsort rev_map)
  show ?thesis
    using general astype_uint8_in_range [of c] nine_to_one_first [of a b pixels km]
      nine_to_one_second [of a b pixels km]
    by blast
qed

theorem dominant_colors_by_population_witness:
  "get_dominant_colors
     (kmeans_stub [(90, 60, 40), (200, 150, 120)] [1, 1, 1, 0, 1, 1, 1, 1, 1, 1])
     [(200, 150, 120), (200, 150, 120), (200, 150, 120), (90, 60, 40), (200, 150, 120),
      (200, 150, 120), (200, 150, 120), (200, 150, 120), (200, 150, 120), (200, 150, 120)] 2
   = Inr [(200, 150, 120), (90, 60, 40)]
   \<and> (\<exists>idx. distinct idx \<and> set idx = {0..<2} \<and>
         [(200, 150, 120), (90, 60, 40)] =
           map (\<lambda>i. pixel_uint8 ([(90, 60, 40), (200, 150, 120)] ! i)) idx \<and>
         sorted (rev (map (count_list [1, 1, 1, 0, 1, 1, 1, 1, 1, 1]) idx)))
   \<and> unat (astype_uint8 199.7) = 199"
proof -
  let ?a = "(200, 150, 120) :: pixel"
  let ?b = "(90, 60, 40) :: pixel"
  let ?px = "[?a, ?a, ?a, ?b, ?a, ?a, ?a, ?a, ?a, ?a]"
  let ?labels = "[1, 1, 1, 0, 1, 1, 1, 1, 1, 1] :: nat list"
  let ?centers = "[(90, 60, 40), (200, 150, 120)] :: fpixel list"
  let ?km = "kmeans_stub ?centers ?labels"
  have fit: "?km 2 42 10 ?px = Inr (?centers, ?labels)"
    by (simp add: kmeans_stub_def)
  have fit': "?km 2 42 10 ?px =
      Inr ([pixel_float ?b, pixel_float ?a], map (\<lambda>p. if p = ?b then 0 else 1) ?px)"
    by (simp add: kmeans_stub_def pixel_float_def astype_float_def)
  have hyp: "?a \<noteq> ?b" "set ?px = {?a, ?b}" "count_list ?px ?a = 9 * count_list ?px ?b"
    by auto
  have res: "get_dominant_colors ?km ?px 2 = Inr [?a, ?b]"
    using dominant_colors_by_population [of ?km 2 ?px ?centers ?labels "[?a, ?b]" "199.7" ?a ?b]
      fit' hyp by blast
  have len: "length (bincount ?labels) = 2"
    by (simp add: bincount_def)
  have order: "\<exists>idx. distinct idx \<and> set idx = {0..<2} \<and>
         [?a, ?b] = map (\<lambda>i. pixel_uint8 (?centers ! i)) idx \<and>
         sorted (rev (map (count_list ?labels) idx))"
    using dominant_colors_by_population [of ?km 2 ?px ?centers ?labels "[?a, ?b]" "199.7" ?a ?b]
      fit res unfolding len by blast
  have "\<lfloor>199.7 :: real\<rfloor> = 199" by linarith
  then have cast: "unat (astype_uint8 199.7) = 199"
    using dominant_colors_by_population [of ?km 2 ?px ?centers ?labels "[?a, ?b]" "199.7" ?a ?b]
    by simp
  show ?thesis using res order cast by (intro conjI)
qed

end
